theory Spec2Isabelle
  imports Main
begin

section \<open>Data model of \<open>backend/app/main.py\<close>\<close>

text \<open>
  Python strings are held as \<open>string\<close>; text outside ASCII is held as its UTF-8
  bytes. JSON-like values are what a detail mapping may carry and what a response body
  holds. A Python \<open>dict\<close> with string keys is a map: \<open>d(k \<mapsto> v)\<close> is
  \<open>d[k] = v\<close> and \<open>a ++ b\<close> is \<open>{**a, **b}\<close> (the right operand wins).
\<close>

datatype json =
    JNull
  | JBool bool
  | JInt int
  | JStr string
  | JList "json list"
  | JDict "(string \<times> json) list"

type_synonym dict = "string \<rightharpoonup> json"

text \<open>
  \<open>exc.detail\<close> of an \<open>HTTPException\<close> is either a \<open>dict\<close> or some other object.
  The handler only ever applies \<open>str\<close> to an object that is not a \<open>dict\<close>, so
  such an object is represented by the text \<open>str\<close> returns for it (a plain string
  by itself).
\<close>

datatype exc_detail = DictDetail dict | NonDict string

record http_exception =
  status_code :: int
  detail :: exc_detail

record request =
  req_method :: string
  path :: string

text \<open>
  The response that \<open>JSONResponse(status_code=..., content=...)\<close> returns;
  \<open>content\<close> is the value passed as \<open>content\<close>, a mapping or Python's \<open>None\<close>.
\<close>

record response =
  resp_status :: int
  content :: "dict option"

text \<open>
  An exception object, as far as the handlers look at it: what \<open>isinstance\<close> answers
  for it, and what \<open>str\<close> does on it. The text that \<open>str\<close> returns is never read
  (the calls that would log it are commented out), so of \<open>str\<close> only the exception it
  raises, if any, is kept.
  \<^item> \<open>AttributeError\<close>, \<open>UnboundLocalError\<close>, \<open>TypeError\<close>: the built-in errors that
    the interpreter raises inside the handlers; they derive from \<open>Exception\<close> and
    \<open>str\<close> returns their message.
  \<^item> \<open>LocalProtocolError s\<close>: an h11 \<open>LocalProtocolError\<close> on which \<open>str\<close> returns \<open>s\<close>.
  \<^item> \<open>OtherException s\<close>: an object of another class deriving from \<open>Exception\<close> on
    which \<open>str\<close> returns \<open>s\<close>.
  \<^item> \<open>ExcObject c r\<close>: an object of a class with a \<open>__str__\<close> of its own; \<open>c\<close> says
    where the class stands, \<open>r\<close> is the exception that \<open>str\<close> raises on the object
    (\<open>None\<close> when \<open>str\<close> returns).
\<close>

datatype exc_class = LocalProtocolErrorClass | ExceptionClass | BaseExceptionClass

datatype py_exception =
    AttributeError
  | UnboundLocalError
  | TypeError
  | LocalProtocolError string
  | OtherException string
  | ExcObject exc_class "py_exception option"

text \<open>\<open>isinstance(e, LocalProtocolError)\<close>.\<close>

fun is_LocalProtocolError :: "py_exception \<Rightarrow> bool" where
  "is_LocalProtocolError (LocalProtocolError s) = True"
| "is_LocalProtocolError (ExcObject c r) = (c = LocalProtocolErrorClass)"
| "is_LocalProtocolError e = False"

text \<open>
  What \<open>except Exception\<close> catches: every class but those that derive from
  \<open>BaseException\<close> only (\<open>KeyboardInterrupt\<close>, \<open>SystemExit\<close>).
\<close>

fun is_Exception :: "py_exception \<Rightarrow> bool" where
  "is_Exception (ExcObject c r) = (c \<noteq> BaseExceptionClass)"
| "is_Exception e = True"

text \<open>\<open>str(e)\<close>: the exception it raises, \<open>None\<close> when it returns.\<close>

fun str_raises :: "py_exception \<Rightarrow> py_exception option" where
  "str_raises (ExcObject c r) = r"
| "str_raises e = None"

section \<open>String operations\<close>

text \<open>
  \<open>str.lower\<close> on the ASCII letters; every other byte is left as it is. No code point
  outside ASCII lower-cases to one of the letters of \<open>autho\<close>, so the test
  \<open>'autho' in s.lower()\<close> is the same on the bytes.
\<close>

definition lower_char :: "char \<Rightarrow> char" where
  "lower_char c =
     (case map_of (zip ''ABCDEFGHIJKLMNOPQRSTUVWXYZ'' ''abcdefghijklmnopqrstuvwxyz'') c of
        None \<Rightarrow> c
      | Some l \<Rightarrow> l)"

definition lower :: "string \<Rightarrow> string" where
  "lower s = map lower_char s"

text \<open>\<open>sub in s\<close> on strings: \<open>sub\<close> occurs in \<open>s\<close> as a contiguous run.\<close>

fun py_in :: "string \<Rightarrow> string \<Rightarrow> bool" where
  "py_in sub [] = (sub = [])"
| "py_in sub (c # cs) = (take (length sub) (c # cs) = sub \<or> py_in sub cs)"

text \<open>\<open>x.lower()\<close> on a value: only \<open>str\<close> has the method.\<close>

definition value_lower :: "json \<Rightarrow> py_exception + string" where
  "value_lower v = (case v of JStr s \<Rightarrow> Inr (lower s) | _ \<Rightarrow> Inl AttributeError)"

text \<open>\<open>d.get(k, default)\<close>.\<close>

definition dict_get :: "dict \<Rightarrow> string \<Rightarrow> json \<Rightarrow> json" where
  "dict_get d k dflt = (case d k of None \<Rightarrow> dflt | Some v \<Rightarrow> v)"

section \<open>The handler of \<open>HTTPException\<close>\<close>

text \<open>
  Line 16: a detail that is not a \<open>dict\<close> is replaced by
  \<open>{"error": "Error", "message": str(exc.detail)}\<close>.
\<close>

definition detail_dict :: "exc_detail \<Rightarrow> dict" where
  "detail_dict d =
     (case d of
        DictDetail m \<Rightarrow> m
      | NonDict s \<Rightarrow> [''error'' \<mapsto> JStr ''Error'', ''message'' \<mapsto> JStr s])"

text \<open>\<open>{"timestamp": timestamp, "method": method, "path": path, **detail}\<close>.\<close>

definition envelope :: "string \<Rightarrow> string \<Rightarrow> string \<Rightarrow> dict \<Rightarrow> dict" where
  "envelope timestamp meth pth d =
     [''timestamp'' \<mapsto> JStr timestamp, ''method'' \<mapsto> JStr meth, ''path'' \<mapsto> JStr pth] ++ d"

text \<open>\<open>detail["status"] = n; detail["code"] = n\<close>.\<close>

definition set_status :: "dict \<Rightarrow> int \<Rightarrow> dict" where
  "set_status d n = d(''status'' \<mapsto> JInt n, ''code'' \<mapsto> JInt n)"

text \<open>
  \<open>http_exception_handler\<close>; \<open>now\<close> is the reading of
  \<open>datetime.utcnow().isoformat()\<close>. The local \<open>exc_value = str(exc)\<close> is never
  read and is left out; \<open>alert\<close> is never read either. Two steps can raise:
  \<open>detail.get("error", "").lower()\<close> in the 401 branch, and the call
  \<open>JSONResponse(status_code=status.HTTP_403_FORBIDDEN)\<close> of the 403 branch, which
  passes no \<open>content\<close>: \<open>content\<close> is a required parameter of the constructor
  \<open>JSONResponse.__init__(self, content, status_code=200, ...)\<close>, and a call without
  it raises \<open>TypeError\<close>.
\<close>

definition http_exception_handler ::
  "request \<Rightarrow> http_exception \<Rightarrow> string \<Rightarrow> py_exception + response" where
  "http_exception_handler req exc now =
     (let d = detail_dict (detail exc);
          timestamp = now;
          meth = req_method req;
          pth = path req;
          alert = dict_get d ''alert'' (JBool False)
      in
      if status_code exc = 400 then
        Inr \<lparr>resp_status = status_code exc,
             content = Some (envelope timestamp meth pth (set_status d (status_code exc)))\<rparr>
      else if status_code exc = 401 then
        (case value_lower (dict_get d ''error'' (JStr '''')) of
           Inl e \<Rightarrow> Inl e
         | Inr low \<Rightarrow>
             let d' = (if py_in ''autho'' low then set_status d 401 else set_status d 402)
             in Inr \<lparr>resp_status = 401, content = Some (envelope timestamp meth pth d')\<rparr>)
      else if status_code exc = 403 then
        Inl TypeError
      else if status_code exc = 404 then
        Inr \<lparr>resp_status = status_code exc,
             content = Some (envelope timestamp meth pth (set_status d (status_code exc)))\<rparr>
      else
        Inr \<lparr>resp_status = status_code exc,
             content = Some (envelope timestamp meth pth (set_status d (status_code exc)))\<rparr>)"

section \<open>The handler of \<open>RequestValidationError\<close>\<close>

text \<open>
  One entry of \<open>exc.errors()\<close>: \<open>loc\<close> is a tuple of strings and integers (field
  names and list indices), \<open>msg\<close> a string.
\<close>

datatype loc_seg = LocStr string | LocInt int

record validation_error =
  loc :: "loc_seg list"
  msg :: string

text \<open>\<open>str\<close> of an integer: its decimal digits, with a sign when negative.\<close>

fun str_nat :: "nat \<Rightarrow> string" where
  "str_nat n =
     (if n < 10 then [''0123456789'' ! n]
      else str_nat (n div 10) @ [''0123456789'' ! (n mod 10)])"

declare str_nat.simps [simp del]

definition str_int :: "int \<Rightarrow> string" where
  "str_int i = (if i < 0 then CHR ''-'' # str_nat (nat (- i)) else str_nat (nat i))"

definition str_seg :: "loc_seg \<Rightarrow> string" where
  "str_seg x = (case x of LocStr s \<Rightarrow> s | LocInt i \<Rightarrow> str_int i)"

text \<open>\<open>sep.join(xs)\<close>.\<close>

fun join :: "string \<Rightarrow> string list \<Rightarrow> string" where
  "join sep [] = []"
| "join sep [x] = x"
| "join sep (x # y # ys) = x @ sep @ join sep (y # ys)"

text \<open>
  Line 77, the text of one error:
  \<open>f"{'.'.join(map(str, error['loc'][1:]))}: {error['msg']}"\<close>.
\<close>

definition error_text :: "validation_error \<Rightarrow> string" where
  "error_text e = join ''.'' (map str_seg (drop 1 (loc e))) @ '': '' @ msg e"

definition validation_exception_handler ::
  "request \<Rightarrow> validation_error list \<Rightarrow> string \<Rightarrow> response" where
  "validation_exception_handler req validation_errors now =
     (let timestamp = now;
          meth = req_method req;
          pth = path req;
          messages = join '' '' (map error_text validation_errors)
      in \<lparr>resp_status = 422,
           content = Some
             [''timestamp'' \<mapsto> JStr timestamp,
              ''method'' \<mapsto> JStr meth,
              ''path'' \<mapsto> JStr pth,
              ''status'' \<mapsto> JInt 422,
              ''code'' \<mapsto> JInt 422,
              ''error'' \<mapsto> JStr ''Request Validation Error'',
              ''message'' \<mapsto> JStr messages]\<rparr>)"

section \<open>The handler of every other \<open>Exception\<close>\<close>

text \<open>The three string literals of the handler; the Korean text as UTF-8 bytes.\<close>

definition internal_error_label :: string where
  "internal_error_label = ''An internal server error occurred.''"

text \<open>Line 105, the message ending in \<open>errorlog\<close> and a Korean word.\<close>

definition message_errorlog :: string where
  "message_errorlog = [
      CHR 0xEC, CHR 0x95, CHR 0x8C, CHR 0xEC, CHR 0x88, CHR 0x98, CHR 0xEC, CHR 0x97, CHR 0x86, CHR 0xEB, CHR 0x8A, CHR 0x94,
      CHR 0x20, CHR 0xEC, CHR 0x97, CHR 0x90, CHR 0xEB, CHR 0x9F, CHR 0xAC, CHR 0xEA, CHR 0xB0, CHR 0x80, CHR 0x20, CHR 0xEB,
      CHR 0xB0, CHR 0x9C, CHR 0xEC, CHR 0x83, CHR 0x9D, CHR 0xED, CHR 0x96, CHR 0x88, CHR 0xEC, CHR 0x8A, CHR 0xB5, CHR 0xEB,
      CHR 0x8B, CHR 0x88, CHR 0xEB, CHR 0x8B, CHR 0xA4, CHR 0x2E, CHR 0x20, CHR 0xEC, CHR 0x9E, CHR 0x90, CHR 0xEC, CHR 0x84,
      CHR 0xB8, CHR 0xED, CHR 0x95, CHR 0x9C, CHR 0x20, CHR 0xEC, CHR 0x82, CHR 0xAC, CHR 0xED, CHR 0x95, CHR 0xAD, CHR 0xEC,
      CHR 0x9D, CHR 0x80, CHR 0x20, CHR 0x65, CHR 0x72, CHR 0x72, CHR 0x6F, CHR 0x72, CHR 0x6C, CHR 0x6F, CHR 0x67, CHR 0x20,
      CHR 0xEC, CHR 0xB0, CHR 0xB8, CHR 0xEA, CHR 0xB3, CHR 0xA0]"

text \<open>Line 141, the message of the \<open>except\<close> branch.\<close>

definition message_fallback :: string where
  "message_fallback = [
      CHR 0xEC, CHR 0x95, CHR 0x8C, CHR 0xEC, CHR 0x88, CHR 0x98, CHR 0xEC, CHR 0x97, CHR 0x86, CHR 0xEB, CHR 0x8A, CHR 0x94,
      CHR 0x20, CHR 0xEC, CHR 0x97, CHR 0x90, CHR 0xEB, CHR 0x9F, CHR 0xAC, CHR 0xEA, CHR 0xB0, CHR 0x80, CHR 0x20, CHR 0xEB,
      CHR 0xB0, CHR 0x9C, CHR 0xEC, CHR 0x83, CHR 0x9D, CHR 0xED, CHR 0x96, CHR 0x88, CHR 0xEC, CHR 0x8A, CHR 0xB5, CHR 0xEB,
      CHR 0x8B, CHR 0x88, CHR 0xEB, CHR 0x8B, CHR 0xA4, CHR 0x2E, CHR 0x20, CHR 0xEC, CHR 0x9E, CHR 0x90, CHR 0xEC, CHR 0x84,
      CHR 0xB8, CHR 0xED, CHR 0x95, CHR 0x9C, CHR 0x20, CHR 0xEC, CHR 0x82, CHR 0xAC, CHR 0xED, CHR 0x95, CHR 0xAD, CHR 0xEC,
      CHR 0x9D, CHR 0x80, CHR 0x20, CHR 0xEC, CHR 0xB1, CHR 0x84, CHR 0xEB, CHR 0x84, CHR 0x90, CHR 0xED, CHR 0x86, CHR 0xA1,
      CHR 0xEC, CHR 0x9C, CHR 0xBC, CHR 0xEB, CHR 0xA1, CHR 0x9C, CHR 0x20, CHR 0xEB, CHR 0xAC, CHR 0xB8, CHR 0xEC, CHR 0x9D,
      CHR 0x98, CHR 0xEC, CHR 0xA3, CHR 0xBC, CHR 0xEC, CHR 0x84, CHR 0xB8, CHR 0xEC, CHR 0x9A, CHR 0x94, CHR 0x2E]"

text \<open>
  The body of the \<open>try\<close>. Line 97, \<open>exc_message = str(exc)\<close>, raises what
  \<open>__str__\<close> of the exception raises. The locals \<open>error\<close> and \<open>message\<close> are
  assigned in the \<open>else\<close> branch only; a local that was never assigned is \<open>None\<close>
  here, and reading it raises \<open>UnboundLocalError\<close>.
\<close>

definition general_try ::
  "request \<Rightarrow> py_exception \<Rightarrow> string \<Rightarrow> py_exception + response" where
  "general_try req exc now =
     (case str_raises exc of
        Some raised \<Rightarrow> Inl raised
      | None \<Rightarrow>
          (let (error, message) =
                 (if is_LocalProtocolError exc then (None, None)
                  else (Some internal_error_label, Some message_errorlog));
               timestamp = now;
               meth = req_method req;
               pth = path req
           in case error of
                None \<Rightarrow> Inl UnboundLocalError
              | Some err \<Rightarrow>
                  (case message of
                     None \<Rightarrow> Inl UnboundLocalError
                   | Some m \<Rightarrow>
                       Inr \<lparr>resp_status = 500,
                            content = Some
                              [''timestamp'' \<mapsto> JStr timestamp,
                               ''method'' \<mapsto> JStr meth,
                               ''path'' \<mapsto> JStr pth,
                               ''status'' \<mapsto> JInt 500,
                               ''code'' \<mapsto> JInt 500,
                               ''error'' \<mapsto> JStr err,
                               ''message'' \<mapsto> JStr m]\<rparr>)))"

text \<open>
  \<open>general_exception_handler\<close>; \<open>now\<close> is the clock reading inside the \<open>try\<close>,
  \<open>now'\<close> the one inside the \<open>except\<close> branch. \<open>except Exception\<close> lets an
  exception through that does not derive from \<open>Exception\<close>. Line 127,
  \<open>internal_exc_message = str(internal_exc)\<close>, stands in the \<open>except\<close> branch,
  outside the \<open>try\<close>: what it raises leaves the handler.
\<close>

definition general_exception_handler ::
  "request \<Rightarrow> py_exception \<Rightarrow> string \<Rightarrow> string \<Rightarrow> py_exception + response" where
  "general_exception_handler req exc now now' =
     (case general_try req exc now of
        Inr r \<Rightarrow> Inr r
      | Inl internal_exc \<Rightarrow>
          if is_Exception internal_exc then
            (case str_raises internal_exc of
               Some raised \<Rightarrow> Inl raised
             | None \<Rightarrow>
                 (let timestamp = now';
                      meth = req_method req;
                      pth = path req
                  in Inr \<lparr>resp_status = 500,
                          content = Some
                            [''timestamp'' \<mapsto> JStr timestamp,
                             ''method'' \<mapsto> JStr meth,
                             ''path'' \<mapsto> JStr pth,
                             ''status'' \<mapsto> JInt 500,
                             ''code'' \<mapsto> JInt 500,
                             ''error'' \<mapsto> JStr ''An internal server error occurred.'',
                             ''message'' \<mapsto> JStr message_fallback]\<rparr>))
          else Inl internal_exc)"

section \<open>The health check\<close>

text \<open>\<open>health_check\<close> takes no argument and returns \<open>{"status": "ok"}\<close>.\<close>

definition health_check :: dict where
  "health_check = [''status'' \<mapsto> JStr ''ok'']"

text \<open>
  A route as the decorator declares it. \<open>@app.get("/healths")\<close> passes no
  \<open>status_code\<close>, and the framework then answers with 200.
\<close>

record route =
  route_method :: string
  route_path :: string
  route_status_code :: "int option"
  endpoint :: dict

definition healths_route :: route where
  "healths_route =
     \<lparr>route_method = ''GET'', route_path = ''/healths'', route_status_code = None,
      endpoint = health_check\<rparr>"

definition serve :: "route \<Rightarrow> request \<Rightarrow> response option" where
  "serve r req =
     (if req_method req = route_method r \<and> path req = route_path r then
        Some \<lparr>resp_status = (case route_status_code r of None \<Rightarrow> 200 | Some n \<Rightarrow> n),
              content = Some (endpoint r)\<rparr>
      else None)"

section \<open>Notions used to state the properties\<close>

text \<open>The seven fields of the error envelope.\<close>

definition envelope_fields :: "string set" where
  "envelope_fields =
     {''timestamp'', ''method'', ''path'', ''status'', ''code'', ''error'', ''message''}"

text \<open>
  The test of the 401 branch on a detail mapping whose \<open>error\<close> entry is a string
  or is absent: \<open>'autho' in detail.get("error", "").lower()\<close>.
\<close>

definition error_has_autho :: "dict \<Rightarrow> bool" where
  "error_has_autho d =
     (case dict_get d ''error'' (JStr '''') of
        JStr s \<Rightarrow> py_in ''autho'' (lower s)
      | _ \<Rightarrow> False)"

text \<open>
  The validation message as the specification words it: the texts are joined from left
  to right with the separator between them; the first segment of a location is dropped
  and the remaining ones are joined with dots; the texts of all errors, in order, are
  joined with spaces.
\<close>

definition spec_join :: "string \<Rightarrow> string list \<Rightarrow> string" where
  "spec_join sep xs =
     (case xs of [] \<Rightarrow> [] | x # rest \<Rightarrow> foldl (\<lambda>acc y. acc @ sep @ y) x rest)"

definition spec_field_path :: "loc_seg list \<Rightarrow> string" where
  "spec_field_path l = spec_join ''.'' (map str_seg (tl l))"

definition spec_validation_message :: "validation_error list \<Rightarrow> string" where
  "spec_validation_message errs =
     spec_join '' '' (map (\<lambda>e. spec_field_path (loc e) @ '': '' @ msg e) errs)"

section \<open>Facts about the string operations\<close>

text \<open>\<open>py_in\<close> is the substring relation.\<close>

lemma py_in_iff: "py_in sub s \<longleftrightarrow> (\<exists>ps ss. s = ps @ sub @ ss)"
proof (induction s)
  case Nil
  show ?case by auto
next
  case (Cons c cs)
  have here: "take (length sub) (c # cs) = sub \<longleftrightarrow> (\<exists>ss. c # cs = sub @ ss)"
    by (metis append_eq_conv_conj)
  have split: "(\<exists>ps ss. c # cs = ps @ sub @ ss) \<longleftrightarrow>
      (\<exists>ss. c # cs = sub @ ss) \<or> (\<exists>ps ss. cs = ps @ sub @ ss)"
  proof
    assume "\<exists>ps ss. c # cs = ps @ sub @ ss"
    then obtain ps ss where eq: "c # cs = ps @ sub @ ss" by blast
    show "(\<exists>ss. c # cs = sub @ ss) \<or> (\<exists>ps ss. cs = ps @ sub @ ss)"
    proof (cases ps)
      case Nil
      with eq show ?thesis by auto
    next
      case (Cons p ps')
      with eq have "cs = ps' @ sub @ ss" by simp
      then show ?thesis by blast
    qed
  next
    assume "(\<exists>ss. c # cs = sub @ ss) \<or> (\<exists>ps ss. cs = ps @ sub @ ss)"
    then show "\<exists>ps ss. c # cs = ps @ sub @ ss"
    proof
      assume "\<exists>ss. c # cs = sub @ ss"
      then obtain ss where "c # cs = [] @ sub @ ss" by auto
      then show ?thesis by blast
    next
      assume "\<exists>ps ss. cs = ps @ sub @ ss"
      then obtain ps ss where "c # cs = (c # ps) @ sub @ ss" by auto
      then show ?thesis by blast
    qed
  qed
  show ?case using Cons.IH here split by simp
qed

text \<open>
  The test on the lower-cased string holds exactly when some contiguous part of the
  string lower-cases to the pattern: the containment is case-insensitive.
\<close>

lemma py_in_lower_iff:
  "py_in sub (lower s) \<longleftrightarrow> (\<exists>ps m ss. s = ps @ m @ ss \<and> lower m = sub)"
proof
  assume "py_in sub (lower s)"
  then obtain a c where "map lower_char s = a @ (sub @ c)"
    unfolding py_in_iff lower_def by blast
  then have "\<exists>ps rest. s = ps @ rest \<and> a = map lower_char ps \<and> sub @ c = map lower_char rest"
    by (simp only: map_eq_append_conv)
  then obtain ps rest where s: "s = ps @ rest" and rest: "map lower_char rest = sub @ c"
    by auto
  from rest have "\<exists>m ss. rest = m @ ss \<and> sub = map lower_char m \<and> c = map lower_char ss"
    by (simp only: map_eq_append_conv)
  then obtain m ss where "rest = m @ ss" and "map lower_char m = sub"
    by auto
  with s show "\<exists>ps m ss. s = ps @ m @ ss \<and> lower m = sub"
    unfolding lower_def by blast
next
  assume "\<exists>ps m ss. s = ps @ m @ ss \<and> lower m = sub"
  then obtain ps m ss where "s = ps @ m @ ss" and "lower m = sub" by blast
  then have "lower s = lower ps @ sub @ lower ss"
    by (auto simp add: lower_def)
  then show "py_in sub (lower s)"
    unfolding py_in_iff by blast
qed

lemma foldl_sep_prefix:
  "foldl (\<lambda>acc y. acc @ sep @ y) (x @ a) xs = x @ foldl (\<lambda>acc y. acc @ sep @ y) a xs"
  by (induction xs arbitrary: a) simp_all

lemma join_foldl: "join sep (x # xs) = foldl (\<lambda>acc y. acc @ sep @ y) x xs"
proof (induction xs arbitrary: x)
  case Nil
  show ?case by simp
next
  case (Cons a xs)
  have "join sep (x # a # xs) = x @ sep @ foldl (\<lambda>acc y. acc @ sep @ y) a xs"
    by (simp add: Cons.IH)
  also have "\<dots> = foldl (\<lambda>acc y. acc @ sep @ y) ((x @ sep) @ a) xs"
    by (simp only: foldl_sep_prefix append_assoc)
  finally show ?case by simp
qed

lemma join_spec_join: "join sep xs = spec_join sep xs"
  by (cases xs) (simp_all add: spec_join_def join_foldl)

lemma error_text_spec: "error_text e = spec_field_path (loc e) @ '': '' @ msg e"
  by (simp add: error_text_def spec_field_path_def join_spec_join drop_Suc)

lemma messages_spec:
  "join '' '' (map error_text errs) = spec_validation_message errs"
proof -
  have "map error_text errs = map (\<lambda>e. spec_field_path (loc e) @ '': '' @ msg e) errs"
    by (simp add: error_text_spec)
  then show ?thesis
    by (simp only: spec_validation_message_def join_spec_join)
qed

section \<open>Facts about the envelope\<close>

lemma envelope_status:
  "envelope t m p (set_status d n) ''status'' = Some (JInt n)"
  by (simp add: envelope_def set_status_def)

lemma envelope_code:
  "envelope t m p (set_status d n) ''code'' = Some (JInt n)"
  by (simp add: envelope_def set_status_def)

lemma envelope_echo:
  assumes "d k = Some v" and "k \<noteq> ''status''" and "k \<noteq> ''code''"
  shows "envelope t m p (set_status d n) k = Some v"
  using assms by (simp add: envelope_def set_status_def map_add_def)

lemma dom_envelope:
  "dom (envelope t m p (set_status d n)) =
     {''timestamp'', ''method'', ''path'', ''status'', ''code''} \<union> dom d"
  by (auto simp: envelope_def set_status_def)

lemma dom_detail_dict_NonDict: "dom (detail_dict (NonDict s)) = {''error'', ''message''}"
  by (auto simp: detail_dict_def)

section \<open>The branches of the handlers\<close>

lemma http_echo_branches:
  assumes "status_code exc \<noteq> 401" and "status_code exc \<noteq> 403"
  shows "http_exception_handler req exc now =
           Inr \<lparr>resp_status = status_code exc,
                content = Some (envelope now (req_method req) (path req)
                   (set_status (detail_dict (detail exc)) (status_code exc)))\<rparr>"
  using assms by (simp add: http_exception_handler_def Let_def)

lemma http_401_branch:
  assumes "status_code exc = 401"
    and "dict_get (detail_dict (detail exc)) ''error'' (JStr '''') = JStr s"
  shows "http_exception_handler req exc now =
           Inr \<lparr>resp_status = 401,
                content = Some (envelope now (req_method req) (path req)
                   (set_status (detail_dict (detail exc))
                      (if py_in ''autho'' (lower s) then 401 else 402)))\<rparr>"
  using assms by (simp add: http_exception_handler_def Let_def value_lower_def)

text \<open>The 403 branch: the constructor is called without \<open>content\<close> and raises.\<close>

lemma http_403_branch:
  assumes "status_code exc = 403"
  shows "http_exception_handler req exc now = Inl TypeError"
  using assms by (simp add: http_exception_handler_def Let_def)

text \<open>In the 401 branch an \<open>error\<close> entry that is not a string makes \<open>.lower()\<close> raise.\<close>

lemma http_401_raises:
  assumes "status_code exc = 401"
    and "\<forall>s. dict_get (detail_dict (detail exc)) ''error'' (JStr '''') \<noteq> JStr s"
  shows "http_exception_handler req exc now = Inl AttributeError"
  using assms
  by (simp add: http_exception_handler_def Let_def value_lower_def split: json.splits)

lemma http_result_cases:
  assumes "http_exception_handler req exc now = Inr r"
  shows "(status_code exc = 401 \<and>
            (\<exists>s. dict_get (detail_dict (detail exc)) ''error'' (JStr '''') = JStr s \<and>
              r = \<lparr>resp_status = 401,
                content = Some (envelope now (req_method req) (path req)
                   (set_status (detail_dict (detail exc))
                      (if py_in ''autho'' (lower s) then 401 else 402)))\<rparr>))
       \<or> (status_code exc \<noteq> 401 \<and> status_code exc \<noteq> 403 \<and>
              r = \<lparr>resp_status = status_code exc,
                content = Some (envelope now (req_method req) (path req)
                   (set_status (detail_dict (detail exc)) (status_code exc)))\<rparr>)"
proof (cases "status_code exc = 403")
  case True
  with assms show ?thesis by (simp add: http_403_branch)
next
  case n403: False
  show ?thesis
  proof (cases "status_code exc = 401")
    case False
    with n403 assms show ?thesis by (simp add: http_echo_branches)
  next
    case True
    show ?thesis
    proof (cases "\<exists>s. dict_get (detail_dict (detail exc)) ''error'' (JStr '''') = JStr s")
      case False
      then have "http_exception_handler req exc now = Inl AttributeError"
        using True by (simp add: http_401_raises)
      with assms show ?thesis by simp
    next
      case True
      then obtain s where s: "dict_get (detail_dict (detail exc)) ''error'' (JStr '''') = JStr s"
        by blast
      from http_401_branch [OF \<open>status_code exc = 401\<close> s] assms s \<open>status_code exc = 401\<close>
      show ?thesis by auto
    qed
  qed
qed

lemma http_body_is_envelope:
  assumes "http_exception_handler req exc now = Inr r" and "content r = Some body"
  shows "resp_status r = status_code exc \<and> status_code exc \<noteq> 403 \<and>
         body = envelope now (req_method req) (path req)
                  (set_status (detail_dict (detail exc))
                     (if status_code exc = 401 \<and> \<not> error_has_autho (detail_dict (detail exc))
                      then 402 else status_code exc))"
  using http_result_cases [OF assms(1)] assms(2)
  by (auto simp: error_has_autho_def)

lemma http_response_has_body:
  assumes "http_exception_handler req exc now = Inr r"
  shows "\<exists>body. content r = Some body"
  using http_result_cases [OF assms] by auto

lemma validation_handler_cases:
  "validation_exception_handler req errs now =
     \<lparr>resp_status = 422,
      content = Some
        [''timestamp'' \<mapsto> JStr now,
         ''method'' \<mapsto> JStr (req_method req),
         ''path'' \<mapsto> JStr (path req),
         ''status'' \<mapsto> JInt 422,
         ''code'' \<mapsto> JInt 422,
         ''error'' \<mapsto> JStr ''Request Validation Error'',
         ''message'' \<mapsto> JStr (join '' '' (map error_text errs))]\<rparr>"
  by (simp add: validation_exception_handler_def Let_def)

lemma general_try_cases:
  "general_try req exc now =
     (case str_raises exc of
        Some raised \<Rightarrow> Inl raised
      | None \<Rightarrow>
          if is_LocalProtocolError exc then Inl UnboundLocalError
          else Inr \<lparr>resp_status = 500,
                    content = Some
                      [''timestamp'' \<mapsto> JStr now,
                       ''method'' \<mapsto> JStr (req_method req),
                       ''path'' \<mapsto> JStr (path req),
                       ''status'' \<mapsto> JInt 500,
                       ''code'' \<mapsto> JInt 500,
                       ''error'' \<mapsto> JStr internal_error_label,
                       ''message'' \<mapsto> JStr message_errorlog]\<rparr>)"
  by (simp add: general_try_def Let_def split: option.splits)

lemma general_handler_cases:
  "general_exception_handler req exc now now' =
     (case general_try req exc now of
        Inr r \<Rightarrow> Inr r
      | Inl e \<Rightarrow>
          if is_Exception e then
            (case str_raises e of
               Some raised \<Rightarrow> Inl raised
             | None \<Rightarrow>
                 Inr \<lparr>resp_status = 500,
                      content = Some
                        [''timestamp'' \<mapsto> JStr now',
                         ''method'' \<mapsto> JStr (req_method req),
                         ''path'' \<mapsto> JStr (path req),
                         ''status'' \<mapsto> JInt 500,
                         ''code'' \<mapsto> JInt 500,
                         ''error'' \<mapsto> JStr internal_error_label,
                         ''message'' \<mapsto> JStr message_fallback]\<rparr>)
          else Inl e)"
  by (simp add: general_exception_handler_def internal_error_label_def Let_def
      split: sum.splits option.splits)

text \<open>When \<open>str\<close> returns on the exception, the handler returns a response.\<close>

lemma general_handler_str_returns:
  assumes "str_raises exc = None"
  shows "general_exception_handler req exc now now' =
     Inr \<lparr>resp_status = 500,
          content = Some
            [''timestamp'' \<mapsto> JStr (if is_LocalProtocolError exc then now' else now),
             ''method'' \<mapsto> JStr (req_method req),
             ''path'' \<mapsto> JStr (path req),
             ''status'' \<mapsto> JInt 500,
             ''code'' \<mapsto> JInt 500,
             ''error'' \<mapsto> JStr internal_error_label,
             ''message'' \<mapsto> JStr (if is_LocalProtocolError exc then message_fallback
                                    else message_errorlog)]\<rparr>"
  using assms by (simp add: general_handler_cases general_try_cases)

text \<open>Every response of the catch-all handler is one of the two envelopes.\<close>

lemma general_handler_Inr:
  assumes "general_exception_handler req exc now now' = Inr r"
  shows "\<exists>t m. r = \<lparr>resp_status = 500,
          content = Some
            [''timestamp'' \<mapsto> JStr t,
             ''method'' \<mapsto> JStr (req_method req),
             ''path'' \<mapsto> JStr (path req),
             ''status'' \<mapsto> JInt 500,
             ''code'' \<mapsto> JInt 500,
             ''error'' \<mapsto> JStr internal_error_label,
             ''message'' \<mapsto> JStr m]\<rparr>"
  using assms
  by (auto simp: general_handler_cases general_try_cases
      split: sum.splits option.splits if_splits)

lemma messages_differ: "message_fallback \<noteq> message_errorlog"
  by (simp add: message_fallback_def message_errorlog_def)

section \<open>Explicit HTTP errors\<close>

text \<open>
  C1, as the code has it. For an HTTP error with status 401 whose detail \<open>error\<close>
  entry is a string \<open>s\<close> (the empty string when the entry is absent, \<open>Error\<close> when
  the detail is not a mapping), the handler returns a response whose HTTP status is
  401 in both cases; the \<open>status\<close> and \<open>code\<close> fields of the body are 401 when
  \<open>s\<close> contains \<open>autho\<close> case-insensitively and 402 otherwise.
\<close>

theorem http_401_response:
  assumes "status_code exc = 401"
    and "dict_get (detail_dict (detail exc)) ''error'' (JStr '''') = JStr s"
  shows "\<exists>body. http_exception_handler req exc now =
                  Inr \<lparr>resp_status = 401, content = Some body\<rparr>
          \<and> body ''status'' = Some (JInt (if py_in ''autho'' (lower s) then 401 else 402))
          \<and> body ''code'' = Some (JInt (if py_in ''autho'' (lower s) then 401 else 402))"
proof (intro exI conjI)
  show "http_exception_handler req exc now =
          Inr \<lparr>resp_status = 401,
               content = Some (envelope now (req_method req) (path req)
                  (set_status (detail_dict (detail exc))
                     (if py_in ''autho'' (lower s) then 401 else 402)))\<rparr>"
    by (rule http_401_branch [OF assms])
qed (rule envelope_status envelope_code)+

text \<open>An instance of C1: \<open>Not Authorized\<close> contains \<open>autho\<close>, the body says 401.\<close>

theorem http_401_response_witness:
  "status_code \<lparr>status_code = 401,
                 detail = DictDetail [''error'' \<mapsto> JStr ''Not Authorized'']\<rparr> = 401
   \<and> dict_get (detail_dict (detail \<lparr>status_code = 401,
                 detail = DictDetail [''error'' \<mapsto> JStr ''Not Authorized'']\<rparr>))
        ''error'' (JStr '''') = JStr ''Not Authorized''
   \<and> (\<exists>body. http_exception_handler \<lparr>req_method = ''GET'', path = ''/api/v1/jobs''\<rparr>
                 \<lparr>status_code = 401,
                  detail = DictDetail [''error'' \<mapsto> JStr ''Not Authorized'']\<rparr>
                 ''2024-05-01T10:00:00'' =
                Inr \<lparr>resp_status = 401, content = Some body\<rparr>
          \<and> body ''status'' = Some (JInt 401) \<and> body ''code'' = Some (JInt 401))"
proof -
  let ?exc = "\<lparr>status_code = 401,
               detail = DictDetail [''error'' \<mapsto> JStr ''Not Authorized'']\<rparr>"
  have h1: "status_code ?exc = 401" by simp
  have h2: "dict_get (detail_dict (detail ?exc)) ''error'' (JStr '''') = JStr ''Not Authorized''"
    by (simp add: dict_get_def detail_dict_def)
  have low: "py_in ''autho'' (lower ''Not Authorized'')"
    by (simp add: lower_def lower_char_def)
  from http_401_response [OF h1 h2, of "\<lparr>req_method = ''GET'', path = ''/api/v1/jobs''\<rparr>"
      "''2024-05-01T10:00:00''"] low h1 h2
  show ?thesis by simp
qed

text \<open>
  C1 as stated fails: with the \<open>error\<close> entry \<open>Something else\<close>, which does not
  contain \<open>autho\<close>, the status of the response is 401, not 402; 402 appears in the
  body only.
\<close>

theorem http_401_status_counterexample:
  "http_exception_handler \<lparr>req_method = ''GET'', path = ''/api/v1/jobs''\<rparr>
     \<lparr>status_code = 401, detail = DictDetail [''error'' \<mapsto> JStr ''Something else'']\<rparr>
     ''2024-05-01T10:00:00'' =
   Inr \<lparr>resp_status = 401,
        content = Some
          [''timestamp'' \<mapsto> JStr ''2024-05-01T10:00:00'',
           ''method'' \<mapsto> JStr ''GET'',
           ''path'' \<mapsto> JStr ''/api/v1/jobs'',
           ''error'' \<mapsto> JStr ''Something else'',
           ''status'' \<mapsto> JInt 402,
           ''code'' \<mapsto> JInt 402]\<rparr>
   \<and> \<not> py_in ''autho'' (lower ''Something else'')"
  by (simp add: http_exception_handler_def Let_def value_lower_def dict_get_def detail_dict_def
      lower_def lower_char_def envelope_def set_status_def)

section \<open>The catch-all handler on a \<open>LocalProtocolError\<close>\<close>

text \<open>
  C2, at a \<open>LocalProtocolError\<close>: the \<open>try\<close> body raises \<open>UnboundLocalError\<close>,
  and the response is the one of the \<open>except\<close> branch, whose message is not the
  message given for every other exception.
\<close>

theorem general_handler_local_protocol_error:
  "general_exception_handler \<lparr>req_method = ''POST'', path = ''/api/v1/jobs''\<rparr>
     (LocalProtocolError ''Too much data for declared Content-Length'')
     ''2024-05-01T10:00:00.000010'' ''2024-05-01T10:00:00.000020'' =
   Inr \<lparr>resp_status = 500,
        content = Some
          [''timestamp'' \<mapsto> JStr ''2024-05-01T10:00:00.000020'',
           ''method'' \<mapsto> JStr ''POST'',
           ''path'' \<mapsto> JStr ''/api/v1/jobs'',
           ''status'' \<mapsto> JInt 500,
           ''code'' \<mapsto> JInt 500,
           ''error'' \<mapsto> JStr ''An internal server error occurred.'',
           ''message'' \<mapsto> JStr message_fallback]\<rparr>
   \<and> general_try \<lparr>req_method = ''POST'', path = ''/api/v1/jobs''\<rparr>
       (LocalProtocolError ''Too much data for declared Content-Length'')
       ''2024-05-01T10:00:00.000010'' = Inl UnboundLocalError
   \<and> general_exception_handler \<lparr>req_method = ''POST'', path = ''/api/v1/jobs''\<rparr>
     (OtherException ''division by zero'')
     ''2024-05-01T10:00:00.000010'' ''2024-05-01T10:00:00.000020'' =
   Inr \<lparr>resp_status = 500,
        content = Some
          [''timestamp'' \<mapsto> JStr ''2024-05-01T10:00:00.000010'',
           ''method'' \<mapsto> JStr ''POST'',
           ''path'' \<mapsto> JStr ''/api/v1/jobs'',
           ''status'' \<mapsto> JInt 500,
           ''code'' \<mapsto> JInt 500,
           ''error'' \<mapsto> JStr ''An internal server error occurred.'',
           ''message'' \<mapsto> JStr message_errorlog]\<rparr>
   \<and> message_fallback \<noteq> message_errorlog"
  by (simp add: general_exception_handler_def general_try_def internal_error_label_def
      Let_def messages_differ)

section \<open>The fields of a response body\<close>

text \<open>
  C3, as the code has it. The body of a response of the HTTP error handler has the
  fields \<open>timestamp\<close>, \<open>method\<close>, \<open>path\<close>, \<open>status\<close>, \<open>code\<close> and every key of the
  detail mapping: an \<open>alert\<close> entry of the detail is emitted in the body as it is.
  When the detail is not a mapping these are exactly the seven fields of the envelope,
  and so are the fields of the bodies of the validation handler and of the catch-all
  handler (which returns one whenever \<open>str\<close> returns on the exception).
\<close>

theorem body_fields:
  assumes "http_exception_handler req exc now = Inr r" and "content r = Some body"
  shows "dom body = {''timestamp'', ''method'', ''path'', ''status'', ''code''}
                      \<union> dom (detail_dict (detail exc))
       \<and> body ''alert'' = detail_dict (detail exc) ''alert''
       \<and> (\<forall>s. detail exc = NonDict s \<longrightarrow> dom body = envelope_fields)
       \<and> (\<exists>vbody. content (validation_exception_handler vreq errs vnow) = Some vbody
                   \<and> dom vbody = envelope_fields)
       \<and> (\<forall>gresp. general_exception_handler greq gexc gnow gnow' = Inr gresp
             \<longrightarrow> (\<exists>gbody. content gresp = Some gbody \<and> dom gbody = envelope_fields))
       \<and> (str_raises gexc = None
             \<longrightarrow> (\<exists>gresp gbody. general_exception_handler greq gexc gnow gnow' = Inr gresp
                   \<and> content gresp = Some gbody \<and> dom gbody = envelope_fields))"
proof (intro conjI allI impI)
  note b = http_body_is_envelope [OF assms]
  from b show d: "dom body = {''timestamp'', ''method'', ''path'', ''status'', ''code''}
                      \<union> dom (detail_dict (detail exc))"
    by (simp only: dom_envelope)
  from b show "body ''alert'' = detail_dict (detail exc) ''alert''"
    by (simp add: envelope_def set_status_def map_add_def split: option.splits)
  show "dom body = envelope_fields" if "detail exc = NonDict s" for s
    using d that by (auto simp: dom_detail_dict_NonDict envelope_fields_def)
  show "\<exists>vbody. content (validation_exception_handler vreq errs vnow) = Some vbody
                   \<and> dom vbody = envelope_fields"
    by (auto simp: validation_handler_cases envelope_fields_def)
  show "\<exists>gbody. content gresp = Some gbody \<and> dom gbody = envelope_fields"
    if "general_exception_handler greq gexc gnow gnow' = Inr gresp" for gresp
    using general_handler_Inr [OF that] by (auto simp: envelope_fields_def)
  show "\<exists>gresp gbody. general_exception_handler greq gexc gnow gnow' = Inr gresp
                   \<and> content gresp = Some gbody \<and> dom gbody = envelope_fields"
    if "str_raises gexc = None"
    using general_handler_str_returns [OF that] by (auto simp: envelope_fields_def)
qed

text \<open>
  Two instances of C3: a 400 error whose detail carries \<open>alert\<close>, and a 404 error with
  a plain string as detail.
\<close>

theorem body_fields_witness:
  "http_exception_handler \<lparr>req_method = ''POST'', path = ''/jobs''\<rparr>
     \<lparr>status_code = 400,
      detail = DictDetail [''error'' \<mapsto> JStr ''Bad'', ''alert'' \<mapsto> JBool True]\<rparr> ''t0'' =
   Inr \<lparr>resp_status = 400,
        content = Some
          [''timestamp'' \<mapsto> JStr ''t0'', ''method'' \<mapsto> JStr ''POST'', ''path'' \<mapsto> JStr ''/jobs'',
           ''error'' \<mapsto> JStr ''Bad'', ''alert'' \<mapsto> JBool True,
           ''status'' \<mapsto> JInt 400, ''code'' \<mapsto> JInt 400]\<rparr>
   \<and> dom [''timestamp'' \<mapsto> JStr ''t0'', ''method'' \<mapsto> JStr ''POST'', ''path'' \<mapsto> JStr ''/jobs'',
           ''error'' \<mapsto> JStr ''Bad'', ''alert'' \<mapsto> JBool True,
           ''status'' \<mapsto> JInt 400, ''code'' \<mapsto> JInt 400] =
       {''timestamp'', ''method'', ''path'', ''status'', ''code'', ''error'', ''alert''}
   \<and> [''timestamp'' \<mapsto> JStr ''t0'', ''method'' \<mapsto> JStr ''POST'', ''path'' \<mapsto> JStr ''/jobs'',
           ''error'' \<mapsto> JStr ''Bad'', ''alert'' \<mapsto> JBool True,
           ''status'' \<mapsto> JInt 400, ''code'' \<mapsto> JInt 400] ''alert'' = Some (JBool True)
   \<and> http_exception_handler \<lparr>req_method = ''GET'', path = ''/jobs/7''\<rparr>
     \<lparr>status_code = 404, detail = NonDict ''Not Found''\<rparr> ''t1'' =
   Inr \<lparr>resp_status = 404,
        content = Some
          [''timestamp'' \<mapsto> JStr ''t1'', ''method'' \<mapsto> JStr ''GET'', ''path'' \<mapsto> JStr ''/jobs/7'',
           ''error'' \<mapsto> JStr ''Error'', ''message'' \<mapsto> JStr ''Not Found'',
           ''status'' \<mapsto> JInt 404, ''code'' \<mapsto> JInt 404]\<rparr>
   \<and> dom [''timestamp'' \<mapsto> JStr ''t1'', ''method'' \<mapsto> JStr ''GET'', ''path'' \<mapsto> JStr ''/jobs/7'',
           ''error'' \<mapsto> JStr ''Error'', ''message'' \<mapsto> JStr ''Not Found'',
           ''status'' \<mapsto> JInt 404, ''code'' \<mapsto> JInt 404] = envelope_fields"
proof -
  let ?req = "\<lparr>req_method = ''POST'', path = ''/jobs''\<rparr>"
  let ?exc = "\<lparr>status_code = 400,
      detail = DictDetail [''error'' \<mapsto> JStr ''Bad'', ''alert'' \<mapsto> JBool True]\<rparr>"
  let ?body = "[''timestamp'' \<mapsto> JStr ''t0'', ''method'' \<mapsto> JStr ''POST'',
           ''path'' \<mapsto> JStr ''/jobs'',
           ''error'' \<mapsto> JStr ''Bad'', ''alert'' \<mapsto> JBool True,
           ''status'' \<mapsto> JInt 400, ''code'' \<mapsto> JInt 400]"
  let ?req' = "\<lparr>req_method = ''GET'', path = ''/jobs/7''\<rparr>"
  let ?exc' = "\<lparr>status_code = 404, detail = NonDict ''Not Found''\<rparr>"
  let ?body' = "[''timestamp'' \<mapsto> JStr ''t1'', ''method'' \<mapsto> JStr ''GET'',
           ''path'' \<mapsto> JStr ''/jobs/7'',
           ''error'' \<mapsto> JStr ''Error'', ''message'' \<mapsto> JStr ''Not Found'',
           ''status'' \<mapsto> JInt 404, ''code'' \<mapsto> JInt 404]"
  have r: "http_exception_handler ?req ?exc ''t0'' =
             Inr \<lparr>resp_status = 400, content = Some ?body\<rparr>"
    by (simp add: http_exception_handler_def Let_def detail_dict_def envelope_def
        set_status_def)
  have c: "content \<lparr>resp_status = 400, content = Some ?body\<rparr> = Some ?body"
    by simp
  have r': "http_exception_handler ?req' ?exc' ''t1'' =
             Inr \<lparr>resp_status = 404, content = Some ?body'\<rparr>"
    by (simp add: http_exception_handler_def Let_def detail_dict_def envelope_def
        set_status_def)
  have c': "content \<lparr>resp_status = 404, content = Some ?body'\<rparr> = Some ?body'"
    by simp
  have dd: "dom (detail_dict (detail ?exc)) = {''error'', ''alert''}"
    by (auto simp: detail_dict_def)
  have al: "detail_dict (detail ?exc) ''alert'' = Some (JBool True)"
    by (simp add: detail_dict_def)
  from body_fields [OF r c] dd al
  have one: "dom ?body = {''timestamp'', ''method'', ''path'', ''status'', ''code'', ''error'', ''alert''}"
    and two: "?body ''alert'' = Some (JBool True)"
    by auto
  from body_fields [OF r' c', THEN conjunct2, THEN conjunct2, THEN conjunct1]
  have three: "dom ?body' = envelope_fields"
    by simp
  from r r' one two three show ?thesis by blast
qed

text \<open>
  C3 as stated fails: a 400 error whose detail mapping carries \<open>alert\<close> gets a body with
  an \<open>alert\<close> field, which is none of the seven.
\<close>

theorem body_fields_counterexample:
  "http_exception_handler \<lparr>req_method = ''POST'', path = ''/api/v1/jobs''\<rparr>
     \<lparr>status_code = 400,
      detail = DictDetail [''error'' \<mapsto> JStr ''Bad Request'',
                           ''message'' \<mapsto> JStr ''missing id'',
                           ''alert'' \<mapsto> JBool True]\<rparr>
     ''2024-05-01T10:00:00'' =
   Inr \<lparr>resp_status = 400,
        content = Some
          [''timestamp'' \<mapsto> JStr ''2024-05-01T10:00:00'',
           ''method'' \<mapsto> JStr ''POST'',
           ''path'' \<mapsto> JStr ''/api/v1/jobs'',
           ''error'' \<mapsto> JStr ''Bad Request'',
           ''message'' \<mapsto> JStr ''missing id'',
           ''alert'' \<mapsto> JBool True,
           ''status'' \<mapsto> JInt 400,
           ''code'' \<mapsto> JInt 400]\<rparr>
   \<and> ''alert'' \<notin> envelope_fields"
  by (simp add: http_exception_handler_def Let_def detail_dict_def envelope_def set_status_def
      envelope_fields_def)

section \<open>The status of a response and the status in its body\<close>

text \<open>
  C4, as the code has it. Let the HTTP error handler return a response for an error
  whose status is not 403. The HTTP status of the response is the status of the error.
  The response has a body; its \<open>status\<close> and \<open>code\<close> fields are equal, and they
  are the HTTP status of the response except for an error with status 401 whose
  \<open>error\<close> entry does not contain \<open>autho\<close>: there the HTTP status is 401 and the
  two fields are 402. The body of the validation handler and every body of the
  catch-all handler carry the HTTP status of their response.
\<close>

theorem body_status_fields:
  assumes "http_exception_handler req exc now = Inr r" and "status_code exc \<noteq> 403"
  shows "resp_status r = status_code exc
       \<and> (\<exists>body. content r = Some body
             \<and> body ''status'' =
                 Some (JInt (if status_code exc = 401
                                \<and> \<not> error_has_autho (detail_dict (detail exc))
                             then 402 else resp_status r))
             \<and> body ''code'' = body ''status'')
       \<and> (\<exists>vbody. content (validation_exception_handler vreq errs vnow) = Some vbody
             \<and> vbody ''status'' =
                 Some (JInt (resp_status (validation_exception_handler vreq errs vnow)))
             \<and> vbody ''code'' = vbody ''status'')
       \<and> (\<forall>gresp. general_exception_handler greq gexc gnow gnow' = Inr gresp
             \<longrightarrow> (\<exists>gbody. content gresp = Some gbody
                   \<and> gbody ''status'' = Some (JInt (resp_status gresp))
                   \<and> gbody ''code'' = gbody ''status''))"
proof (intro conjI allI impI)
  from http_response_has_body [OF assms(1)] obtain body where c: "content r = Some body"
    by blast
  note b = http_body_is_envelope [OF assms(1) c]
  from b show rs: "resp_status r = status_code exc" by simp
  from b have st: "body ''status'' =
           Some (JInt (if status_code exc = 401 \<and> \<not> error_has_autho (detail_dict (detail exc))
                       then 402 else resp_status r))"
    by (simp only: envelope_status rs)
  from b have "body ''code'' =
           Some (JInt (if status_code exc = 401 \<and> \<not> error_has_autho (detail_dict (detail exc))
                       then 402 else resp_status r))"
    by (simp only: envelope_code rs)
  with st have "body ''code'' = body ''status''" by simp
  with c st show "\<exists>body. content r = Some body
             \<and> body ''status'' =
                 Some (JInt (if status_code exc = 401
                                \<and> \<not> error_has_autho (detail_dict (detail exc))
                             then 402 else resp_status r))
             \<and> body ''code'' = body ''status''"
    by blast
  show "\<exists>vbody. content (validation_exception_handler vreq errs vnow) = Some vbody
             \<and> vbody ''status'' =
                 Some (JInt (resp_status (validation_exception_handler vreq errs vnow)))
             \<and> vbody ''code'' = vbody ''status''"
    by (simp add: validation_handler_cases)
  show "\<exists>gbody. content gresp = Some gbody
                   \<and> gbody ''status'' = Some (JInt (resp_status gresp))
                   \<and> gbody ''code'' = gbody ''status''"
    if "general_exception_handler greq gexc gnow gnow' = Inr gresp" for gresp
    using general_handler_Inr [OF that] by auto
qed

text \<open>
  Two instances of C4: a 401 error with the \<open>error\<close> entry \<open>Token expired\<close>, and a
  404 error with a plain string as detail.
\<close>

theorem body_status_fields_witness:
  "http_exception_handler \<lparr>req_method = ''GET'', path = ''/me''\<rparr>
     \<lparr>status_code = 401, detail = DictDetail [''error'' \<mapsto> JStr ''Token expired'']\<rparr> ''t0'' =
   Inr \<lparr>resp_status = 401,
        content = Some
          [''timestamp'' \<mapsto> JStr ''t0'', ''method'' \<mapsto> JStr ''GET'', ''path'' \<mapsto> JStr ''/me'',
           ''error'' \<mapsto> JStr ''Token expired'',
           ''status'' \<mapsto> JInt 402, ''code'' \<mapsto> JInt 402]\<rparr>
   \<and> status_code
        \<lparr>status_code = 401, detail = DictDetail [''error'' \<mapsto> JStr ''Token expired'']\<rparr>
       \<noteq> 403
   \<and> \<not> error_has_autho [''error'' \<mapsto> JStr ''Token expired'']
   \<and> [''timestamp'' \<mapsto> JStr ''t0'', ''method'' \<mapsto> JStr ''GET'', ''path'' \<mapsto> JStr ''/me'',
           ''error'' \<mapsto> JStr ''Token expired'',
           ''status'' \<mapsto> JInt 402, ''code'' \<mapsto> JInt 402] ''status'' = Some (JInt 402)
   \<and> [''timestamp'' \<mapsto> JStr ''t0'', ''method'' \<mapsto> JStr ''GET'', ''path'' \<mapsto> JStr ''/me'',
           ''error'' \<mapsto> JStr ''Token expired'',
           ''status'' \<mapsto> JInt 402, ''code'' \<mapsto> JInt 402] ''code'' = Some (JInt 402)
   \<and> (\<exists>body. http_exception_handler \<lparr>req_method = ''GET'', path = ''/jobs/7''\<rparr>
          \<lparr>status_code = 404, detail = NonDict ''Not Found''\<rparr> ''t1'' =
        Inr \<lparr>resp_status = 404, content = Some body\<rparr>
      \<and> body ''status'' = Some (JInt 404) \<and> body ''code'' = Some (JInt 404))"
proof -
  let ?req = "\<lparr>req_method = ''GET'', path = ''/me''\<rparr>"
  let ?exc = "\<lparr>status_code = 401,
               detail = DictDetail [''error'' \<mapsto> JStr ''Token expired'']\<rparr>"
  let ?body = "[''timestamp'' \<mapsto> JStr ''t0'', ''method'' \<mapsto> JStr ''GET'',
           ''path'' \<mapsto> JStr ''/me'', ''error'' \<mapsto> JStr ''Token expired'',
           ''status'' \<mapsto> JInt 402, ''code'' \<mapsto> JInt 402]"
  let ?r = "\<lparr>resp_status = 401, content = Some ?body\<rparr>"
  have r: "http_exception_handler ?req ?exc ''t0'' = Inr ?r"
    by (simp add: http_exception_handler_def Let_def value_lower_def dict_get_def
        detail_dict_def lower_def lower_char_def envelope_def set_status_def)
  have h: "status_code ?exc \<noteq> 403" by simp
  have na: "\<not> error_has_autho [''error'' \<mapsto> JStr ''Token expired'']"
    by (simp add: error_has_autho_def dict_get_def lower_def lower_char_def)
  have na': "\<not> error_has_autho (detail_dict (detail ?exc))"
    using na by (simp add: detail_dict_def)
  from body_status_fields [OF r h, THEN conjunct2, THEN conjunct1] na'
  have st: "?body ''status'' = Some (JInt 402)" and co: "?body ''code'' = Some (JInt 402)"
    by simp_all
  let ?req' = "\<lparr>req_method = ''GET'', path = ''/jobs/7''\<rparr>"
  let ?exc' = "\<lparr>status_code = 404, detail = NonDict ''Not Found''\<rparr>"
  have h1': "status_code ?exc' \<noteq> 401" and h': "status_code ?exc' \<noteq> 403"
    by simp_all
  from http_echo_branches [OF h1' h', of ?req' "''t1''"]
  obtain r' where r': "http_exception_handler ?req' ?exc' ''t1'' = Inr r'"
    by blast
  from body_status_fields [OF r' h', THEN conjunct1]
  have rs: "resp_status r' = 404" by simp
  from body_status_fields [OF r' h', THEN conjunct2, THEN conjunct1] rs
  obtain body where "content r' = Some body"
    and "body ''status'' = Some (JInt 404)" and "body ''code'' = Some (JInt 404)"
    by auto
  with r' rs
  have two: "\<exists>body. http_exception_handler ?req' ?exc' ''t1'' =
        Inr \<lparr>resp_status = 404, content = Some body\<rparr>
      \<and> body ''status'' = Some (JInt 404) \<and> body ''code'' = Some (JInt 404)"
    by (cases r') auto
  from r h na st co two show ?thesis by blast
qed

text \<open>
  C4 as stated fails outside the 403 case: a 401 error with the plain string
  \<open>Unauthorized\<close> as detail gets the HTTP status 401 and a body whose \<open>status\<close> and
  \<open>code\<close> are 402.
\<close>

theorem body_status_fields_counterexample:
  "http_exception_handler \<lparr>req_method = ''GET'', path = ''/api/v1/me''\<rparr>
     \<lparr>status_code = 401, detail = NonDict ''Unauthorized''\<rparr>
     ''2024-05-01T10:00:00'' =
   Inr \<lparr>resp_status = 401,
        content = Some
          [''timestamp'' \<mapsto> JStr ''2024-05-01T10:00:00'',
           ''method'' \<mapsto> JStr ''GET'',
           ''path'' \<mapsto> JStr ''/api/v1/me'',
           ''error'' \<mapsto> JStr ''Error'',
           ''message'' \<mapsto> JStr ''Unauthorized'',
           ''status'' \<mapsto> JInt 402,
           ''code'' \<mapsto> JInt 402]\<rparr>"
  by (simp add: http_exception_handler_def Let_def value_lower_def dict_get_def detail_dict_def
      lower_def lower_char_def envelope_def set_status_def)

section \<open>The 403 branch\<close>

text \<open>
  C5, at an HTTP error with status 403: the handler returns no response. The call
  \<open>JSONResponse(status_code=status.HTTP_403_FORBIDDEN)\<close> passes no \<open>content\<close>, the
  constructor raises \<open>TypeError\<close>, and the error leaves the handler.
\<close>

theorem http_403_raises_type_error:
  "http_exception_handler \<lparr>req_method = ''DELETE'', path = ''/api/v1/jobs/7''\<rparr>
     \<lparr>status_code = 403, detail = NonDict ''Forbidden''\<rparr> ''2024-05-01T10:00:00''
   = Inl TypeError
   \<and> http_exception_handler \<lparr>req_method = ''DELETE'', path = ''/api/v1/jobs/7''\<rparr>
     \<lparr>status_code = 403,
      detail = DictDetail [''error'' \<mapsto> JStr ''Forbidden'',
                           ''message'' \<mapsto> JStr ''not the owner'']\<rparr>
     ''2024-05-01T10:00:00''
   = Inl TypeError"
  by (simp add: http_exception_handler_def Let_def)

section \<open>Request validation errors\<close>

text \<open>
  C6. For every list of validation errors the handler answers with status 422, the
  label \<open>Request Validation Error\<close> and, as message, the texts
  \<open><field.path>: <message>\<close> of all errors in order, joined with spaces, where the
  field path is the location without its first segment, joined with dots. The two
  errors at \<open>body.name\<close> and \<open>body.age\<close> give
  \<open>name: required age: must be integer\<close>.
\<close>

theorem validation_response:
  "validation_exception_handler req errs now =
     \<lparr>resp_status = 422,
      content = Some
        [''timestamp'' \<mapsto> JStr now,
         ''method'' \<mapsto> JStr (req_method req),
         ''path'' \<mapsto> JStr (path req),
         ''status'' \<mapsto> JInt 422,
         ''code'' \<mapsto> JInt 422,
         ''error'' \<mapsto> JStr ''Request Validation Error'',
         ''message'' \<mapsto> JStr (spec_validation_message errs)]\<rparr>
   \<and> content (validation_exception_handler req
        [\<lparr>loc = [LocStr ''body'', LocStr ''name''], msg = ''required''\<rparr>,
         \<lparr>loc = [LocStr ''body'', LocStr ''age''], msg = ''must be integer''\<rparr>] now) =
      Some
        [''timestamp'' \<mapsto> JStr now,
         ''method'' \<mapsto> JStr (req_method req),
         ''path'' \<mapsto> JStr (path req),
         ''status'' \<mapsto> JInt 422,
         ''code'' \<mapsto> JInt 422,
         ''error'' \<mapsto> JStr ''Request Validation Error'',
         ''message'' \<mapsto> JStr ''name: required age: must be integer'']"
proof
  show "validation_exception_handler req errs now =
     \<lparr>resp_status = 422,
      content = Some
        [''timestamp'' \<mapsto> JStr now,
         ''method'' \<mapsto> JStr (req_method req),
         ''path'' \<mapsto> JStr (path req),
         ''status'' \<mapsto> JInt 422,
         ''code'' \<mapsto> JInt 422,
         ''error'' \<mapsto> JStr ''Request Validation Error'',
         ''message'' \<mapsto> JStr (spec_validation_message errs)]\<rparr>"
    by (simp only: validation_exception_handler_def Let_def messages_spec)
  show "content (validation_exception_handler req
        [\<lparr>loc = [LocStr ''body'', LocStr ''name''], msg = ''required''\<rparr>,
         \<lparr>loc = [LocStr ''body'', LocStr ''age''], msg = ''must be integer''\<rparr>] now) =
      Some
        [''timestamp'' \<mapsto> JStr now,
         ''method'' \<mapsto> JStr (req_method req),
         ''path'' \<mapsto> JStr (path req),
         ''status'' \<mapsto> JInt 422,
         ''code'' \<mapsto> JInt 422,
         ''error'' \<mapsto> JStr ''Request Validation Error'',
         ''message'' \<mapsto> JStr ''name: required age: must be integer'']"
    by (simp add: validation_exception_handler_def Let_def error_text_def str_seg_def)
qed

section \<open>The branches that echo the status\<close>

text \<open>
  C7. For every HTTP error whose status is neither 401 nor 403 (400, 404, and every
  code that has no branch of its own, the 5xx codes among them) the handler returns a
  response whose HTTP status is the status of the error and whose body has \<open>status\<close>
  and \<open>code\<close> equal to it. The detail payload of the error is in the body: when it is
  a mapping, each of its entries other than \<open>status\<close> and \<open>code\<close> as it is; when it
  is not, its string form as \<open>message\<close>, under the label \<open>Error\<close>.
\<close>

theorem http_echo_response:
  assumes "status_code exc \<noteq> 401" and "status_code exc \<noteq> 403"
  shows "\<exists>body. http_exception_handler req exc now =
                  Inr \<lparr>resp_status = status_code exc, content = Some body\<rparr>
          \<and> body ''status'' = Some (JInt (status_code exc))
          \<and> body ''code'' = Some (JInt (status_code exc))
          \<and> (\<forall>d k v. detail exc = DictDetail d \<and> d k = Some v
                     \<and> k \<noteq> ''status'' \<and> k \<noteq> ''code''
                 \<longrightarrow> body k = Some v)
          \<and> (\<forall>s. detail exc = NonDict s
                 \<longrightarrow> body ''error'' = Some (JStr ''Error'')
                     \<and> body ''message'' = Some (JStr s))"
proof (intro exI conjI allI impI)
  show "http_exception_handler req exc now =
          Inr \<lparr>resp_status = status_code exc,
               content = Some (envelope now (req_method req) (path req)
                  (set_status (detail_dict (detail exc)) (status_code exc)))\<rparr>"
    by (rule http_echo_branches [OF assms])
next
  fix d k v
  assume "detail exc = DictDetail d \<and> d k = Some v \<and> k \<noteq> ''status'' \<and> k \<noteq> ''code''"
  then have "detail_dict (detail exc) k = Some v" and "k \<noteq> ''status''" and "k \<noteq> ''code''"
    by (simp_all add: detail_dict_def)
  then show "envelope now (req_method req) (path req)
               (set_status (detail_dict (detail exc)) (status_code exc)) k = Some v"
    by (rule envelope_echo)
next
  fix s
  assume nd: "detail exc = NonDict s"
  then have "detail_dict (detail exc) ''error'' = Some (JStr ''Error'')"
    by (simp add: detail_dict_def)
  then show "envelope now (req_method req) (path req)
               (set_status (detail_dict (detail exc)) (status_code exc)) ''error''
             = Some (JStr ''Error'')"
    by (simp add: envelope_echo)
  from nd have "detail_dict (detail exc) ''message'' = Some (JStr s)"
    by (simp add: detail_dict_def)
  then show "envelope now (req_method req) (path req)
               (set_status (detail_dict (detail exc)) (status_code exc)) ''message''
             = Some (JStr s)"
    by (simp add: envelope_echo)
qed (rule envelope_status envelope_code)+

text \<open>
  Two instances of C7: a 503 error with a mapping as detail, and a 500 error with a
  plain string as detail.
\<close>

theorem http_echo_response_witness:
  "status_code \<lparr>status_code = 503,
       detail = DictDetail [''error'' \<mapsto> JStr ''Upstream'',
                            ''message'' \<mapsto> JStr ''model busy'']\<rparr> \<noteq> 401
   \<and> status_code \<lparr>status_code = 503,
       detail = DictDetail [''error'' \<mapsto> JStr ''Upstream'',
                            ''message'' \<mapsto> JStr ''model busy'']\<rparr> \<noteq> 403
   \<and> (\<exists>body. http_exception_handler \<lparr>req_method = ''POST'', path = ''/api/v1/jobs''\<rparr>
         \<lparr>status_code = 503,
          detail = DictDetail [''error'' \<mapsto> JStr ''Upstream'',
                               ''message'' \<mapsto> JStr ''model busy'']\<rparr>
         ''2024-05-01T10:00:00'' = Inr \<lparr>resp_status = 503, content = Some body\<rparr>
        \<and> body ''status'' = Some (JInt 503)
        \<and> body ''code'' = Some (JInt 503)
        \<and> body ''error'' = Some (JStr ''Upstream'')
        \<and> body ''message'' = Some (JStr ''model busy''))
   \<and> (\<exists>body. http_exception_handler \<lparr>req_method = ''POST'', path = ''/api/v1/jobs''\<rparr>
         \<lparr>status_code = 500, detail = NonDict ''training failed''\<rparr>
         ''2024-05-01T10:00:00'' = Inr \<lparr>resp_status = 500, content = Some body\<rparr>
        \<and> body ''status'' = Some (JInt 500)
        \<and> body ''code'' = Some (JInt 500)
        \<and> body ''error'' = Some (JStr ''Error'')
        \<and> body ''message'' = Some (JStr ''training failed''))"
proof -
  let ?req = "\<lparr>req_method = ''POST'', path = ''/api/v1/jobs''\<rparr>"
  let ?d = "[''error'' \<mapsto> JStr ''Upstream'', ''message'' \<mapsto> JStr ''model busy'']"
  let ?exc = "\<lparr>status_code = 503, detail = DictDetail ?d\<rparr>"
  have h1: "status_code ?exc \<noteq> 401" and h2: "status_code ?exc \<noteq> 403"
    by simp_all
  from http_echo_response [OF h1 h2, of ?req "''2024-05-01T10:00:00''"]
  obtain body where
    r: "http_exception_handler ?req ?exc ''2024-05-01T10:00:00'' =
          Inr \<lparr>resp_status = status_code ?exc, content = Some body\<rparr>"
    and s: "body ''status'' = Some (JInt (status_code ?exc))"
    and c: "body ''code'' = Some (JInt (status_code ?exc))"
    and echo: "\<forall>d k v. detail ?exc = DictDetail d \<and> d k = Some v
                   \<and> k \<noteq> ''status'' \<and> k \<noteq> ''code'' \<longrightarrow> body k = Some v"
    by blast
  from echo [rule_format, of ?d "''error''" "JStr ''Upstream''"]
  have e: "body ''error'' = Some (JStr ''Upstream'')" by simp
  from echo [rule_format, of ?d "''message''" "JStr ''model busy''"]
  have m: "body ''message'' = Some (JStr ''model busy'')" by simp
  from r s c e m
  have one: "\<exists>body. http_exception_handler ?req ?exc ''2024-05-01T10:00:00'' =
          Inr \<lparr>resp_status = 503, content = Some body\<rparr>
        \<and> body ''status'' = Some (JInt 503)
        \<and> body ''code'' = Some (JInt 503)
        \<and> body ''error'' = Some (JStr ''Upstream'')
        \<and> body ''message'' = Some (JStr ''model busy'')"
    by auto
  let ?exc' = "\<lparr>status_code = 500, detail = NonDict ''training failed''\<rparr>"
  have h1': "status_code ?exc' \<noteq> 401" and h2': "status_code ?exc' \<noteq> 403"
    by simp_all
  from http_echo_response [OF h1' h2', of ?req "''2024-05-01T10:00:00''"]
  obtain body' where
    r': "http_exception_handler ?req ?exc' ''2024-05-01T10:00:00'' =
          Inr \<lparr>resp_status = status_code ?exc', content = Some body'\<rparr>"
    and s': "body' ''status'' = Some (JInt (status_code ?exc'))"
    and c': "body' ''code'' = Some (JInt (status_code ?exc'))"
    and str: "\<forall>s. detail ?exc' = NonDict s
                 \<longrightarrow> body' ''error'' = Some (JStr ''Error'')
                     \<and> body' ''message'' = Some (JStr s)"
    by blast
  from str [rule_format, of "''training failed''"]
  have em: "body' ''error'' = Some (JStr ''Error'')"
    "body' ''message'' = Some (JStr ''training failed'')"
    by simp_all
  from r' s' c' em
  have two: "\<exists>body. http_exception_handler ?req ?exc' ''2024-05-01T10:00:00'' =
          Inr \<lparr>resp_status = 500, content = Some body\<rparr>
        \<and> body ''status'' = Some (JInt 500)
        \<and> body ''code'' = Some (JInt 500)
        \<and> body ''error'' = Some (JStr ''Error'')
        \<and> body ''message'' = Some (JStr ''training failed'')"
    by auto
  from h1 h2 one two show ?thesis by blast
qed

section \<open>What the catch-all handler returns and what it lets through\<close>

text \<open>
  C8, as the code has it. Whenever \<open>str\<close> returns on the exception that reaches the
  catch-all handler, the handler returns a response and raises nothing; when the
  \<open>try\<close> body raises an exception that derives from \<open>Exception\<close> and on which
  \<open>str\<close> returns, the response is the fallback envelope of the \<open>except\<close> branch,
  whose message differs from the message of the \<open>try\<close> body. Every response of the
  handler has status 500 and a body with exactly the seven fields, \<open>status\<close> and
  \<open>code\<close> 500 and the fixed label. The handler lets an exception through exactly
  when the \<open>try\<close> body raises one that does not derive from \<open>Exception\<close>, or one
  on which \<open>str\<close> raises in its turn.
\<close>

theorem general_handler_result:
  "(str_raises exc = None \<longrightarrow>
      (\<exists>body. general_exception_handler req exc now now' =
                Inr \<lparr>resp_status = 500, content = Some body\<rparr>
         \<and> body ''timestamp'' =
             Some (JStr (if isl (general_try req exc now) then now' else now))
         \<and> body ''message'' =
             Some (JStr (if isl (general_try req exc now) then message_fallback
                         else message_errorlog))))
   \<and> (\<forall>e. general_try req exc now = Inl e \<and> is_Exception e \<and> str_raises e = None
         \<longrightarrow> general_exception_handler req exc now now' =
               Inr \<lparr>resp_status = 500,
                    content = Some
                      [''timestamp'' \<mapsto> JStr now',
                       ''method'' \<mapsto> JStr (req_method req),
                       ''path'' \<mapsto> JStr (path req),
                       ''status'' \<mapsto> JInt 500,
                       ''code'' \<mapsto> JInt 500,
                       ''error'' \<mapsto> JStr ''An internal server error occurred.'',
                       ''message'' \<mapsto> JStr message_fallback]\<rparr>)
   \<and> (\<forall>r. general_exception_handler req exc now now' = Inr r
         \<longrightarrow> resp_status r = 500
             \<and> (\<exists>body. content r = Some body
                   \<and> dom body = envelope_fields
                   \<and> body ''method'' = Some (JStr (req_method req))
                   \<and> body ''path'' = Some (JStr (path req))
                   \<and> body ''status'' = Some (JInt 500)
                   \<and> body ''code'' = Some (JInt 500)
                   \<and> body ''error'' = Some (JStr ''An internal server error occurred.'')))
   \<and> (\<forall>e'. general_exception_handler req exc now now' = Inl e'
         \<longleftrightarrow> (\<exists>e. general_try req exc now = Inl e
                   \<and> (if is_Exception e then str_raises e = Some e' else e' = e)))
   \<and> message_fallback \<noteq> message_errorlog"
proof (intro conjI allI impI)
  show "\<exists>body. general_exception_handler req exc now now' =
                Inr \<lparr>resp_status = 500, content = Some body\<rparr>
         \<and> body ''timestamp'' =
             Some (JStr (if isl (general_try req exc now) then now' else now))
         \<and> body ''message'' =
             Some (JStr (if isl (general_try req exc now) then message_fallback
                         else message_errorlog))"
    if sr: "str_raises exc = None"
  proof -
    have l: "isl (general_try req exc now) = is_LocalProtocolError exc"
      using sr by (simp add: general_try_cases)
    show ?thesis
      unfolding l
      by (rule exI, intro conjI, rule general_handler_str_returns [OF sr]) simp_all
  qed
  show "general_exception_handler req exc now now' =
               Inr \<lparr>resp_status = 500,
                    content = Some
                      [''timestamp'' \<mapsto> JStr now',
                       ''method'' \<mapsto> JStr (req_method req),
                       ''path'' \<mapsto> JStr (path req),
                       ''status'' \<mapsto> JInt 500,
                       ''code'' \<mapsto> JInt 500,
                       ''error'' \<mapsto> JStr ''An internal server error occurred.'',
                       ''message'' \<mapsto> JStr message_fallback]\<rparr>"
    if "general_try req exc now = Inl e \<and> is_Exception e \<and> str_raises e = None" for e
    using that by (simp add: general_handler_cases internal_error_label_def)
  show "resp_status r = 500"
    if "general_exception_handler req exc now now' = Inr r" for r
    using general_handler_Inr [OF that] by auto
  show "\<exists>body. content r = Some body
                   \<and> dom body = envelope_fields
                   \<and> body ''method'' = Some (JStr (req_method req))
                   \<and> body ''path'' = Some (JStr (path req))
                   \<and> body ''status'' = Some (JInt 500)
                   \<and> body ''code'' = Some (JInt 500)
                   \<and> body ''error'' = Some (JStr ''An internal server error occurred.'')"
    if "general_exception_handler req exc now now' = Inr r" for r
    using general_handler_Inr [OF that]
    by (auto simp: envelope_fields_def internal_error_label_def)
  show "general_exception_handler req exc now now' = Inl e'
         \<longleftrightarrow> (\<exists>e. general_try req exc now = Inl e
                   \<and> (if is_Exception e then str_raises e = Some e' else e' = e))" for e'
    by (auto simp: general_handler_cases split: sum.splits option.splits)
  show "message_fallback \<noteq> message_errorlog"
    by (rule messages_differ)
qed

text \<open>
  Two instances of C8: a \<open>LocalProtocolError\<close>, for which the \<open>try\<close> body raises
  \<open>UnboundLocalError\<close>, and an exception whose \<open>__str__\<close> raises another one on
  which \<open>str\<close> returns. Both get the fallback envelope.
\<close>

theorem general_handler_result_witness:
  "str_raises (LocalProtocolError ''Invalid HTTP request'') = None
   \<and> general_exception_handler \<lparr>req_method = ''GET'', path = ''/x''\<rparr>
         (LocalProtocolError ''Invalid HTTP request'') ''t1'' ''t2'' =
       Inr \<lparr>resp_status = 500,
            content = Some
              [''timestamp'' \<mapsto> JStr ''t2'',
               ''method'' \<mapsto> JStr ''GET'',
               ''path'' \<mapsto> JStr ''/x'',
               ''status'' \<mapsto> JInt 500,
               ''code'' \<mapsto> JInt 500,
               ''error'' \<mapsto> JStr ''An internal server error occurred.'',
               ''message'' \<mapsto> JStr message_fallback]\<rparr>
   \<and> general_try \<lparr>req_method = ''GET'', path = ''/x''\<rparr>
         (ExcObject ExceptionClass (Some (OtherException ''no such attribute''))) ''t1'' =
       Inl (OtherException ''no such attribute'')
   \<and> is_Exception (OtherException ''no such attribute'')
   \<and> str_raises (OtherException ''no such attribute'') = None
   \<and> general_exception_handler \<lparr>req_method = ''GET'', path = ''/x''\<rparr>
         (ExcObject ExceptionClass (Some (OtherException ''no such attribute'')))
         ''t1'' ''t2'' =
       Inr \<lparr>resp_status = 500,
            content = Some
              [''timestamp'' \<mapsto> JStr ''t2'',
               ''method'' \<mapsto> JStr ''GET'',
               ''path'' \<mapsto> JStr ''/x'',
               ''status'' \<mapsto> JInt 500,
               ''code'' \<mapsto> JInt 500,
               ''error'' \<mapsto> JStr ''An internal server error occurred.'',
               ''message'' \<mapsto> JStr message_fallback]\<rparr>"
proof -
  let ?req = "\<lparr>req_method = ''GET'', path = ''/x''\<rparr>"
  let ?lpe = "LocalProtocolError ''Invalid HTTP request''"
  let ?bad = "ExcObject ExceptionClass (Some (OtherException ''no such attribute''))"
  let ?raised = "OtherException ''no such attribute''"
  have t1: "general_try ?req ?lpe ''t1'' = Inl UnboundLocalError
              \<and> is_Exception UnboundLocalError \<and> str_raises UnboundLocalError = None"
    by (simp add: general_try_cases)
  have t2: "general_try ?req ?bad ''t1'' = Inl ?raised
              \<and> is_Exception ?raised \<and> str_raises ?raised = None"
    by (simp add: general_try_cases)
  note fallback = general_handler_result [THEN conjunct2, THEN conjunct1, rule_format]
  from fallback [OF t1, of "''t2''"] fallback [OF t2, of "''t2''"] t2
  show ?thesis by simp
qed

text \<open>
  C8 as stated fails: for an exception whose \<open>__str__\<close> raises an exception whose
  own \<open>__str__\<close> raises a third one, line 97 raises the second inside the \<open>try\<close>,
  line 127 raises the third inside the \<open>except\<close> branch, and the third leaves the
  handler; no response is returned.
\<close>

theorem general_handler_counterexample:
  "general_exception_handler \<lparr>req_method = ''GET'', path = ''/api/v1/jobs''\<rparr>
     (ExcObject ExceptionClass
        (Some (ExcObject ExceptionClass (Some (OtherException ''boom'')))))
     ''2024-05-01T10:00:00.000010'' ''2024-05-01T10:00:00.000020''
   = Inl (OtherException ''boom'')"
  by (simp add: general_exception_handler_def general_try_def)

section \<open>A detail that is not a mapping\<close>

text \<open>
  C9. For every HTTP error whose detail is not a mapping, the detail the handler works
  with is \<open>{"error": "Error", "message": str(detail)}\<close>, and unless the status is 403
  the handler returns a body whose \<open>error\<close> is \<open>Error\<close> and whose \<open>message\<close> is the
  string form of the detail.
\<close>

theorem http_non_dict_detail:
  assumes "detail exc = NonDict s" and "status_code exc \<noteq> 403"
  shows "detail_dict (detail exc) = [''error'' \<mapsto> JStr ''Error'', ''message'' \<mapsto> JStr s]
       \<and> (\<exists>st body. http_exception_handler req exc now =
                  Inr \<lparr>resp_status = st, content = Some body\<rparr>
            \<and> body ''error'' = Some (JStr ''Error'')
            \<and> body ''message'' = Some (JStr s))"
proof
  show dd: "detail_dict (detail exc) = [''error'' \<mapsto> JStr ''Error'', ''message'' \<mapsto> JStr s]"
    using assms(1) by (simp add: detail_dict_def)
  have e: "detail_dict (detail exc) ''error'' = Some (JStr ''Error'')"
    and m: "detail_dict (detail exc) ''message'' = Some (JStr s)"
    by (simp_all add: dd)
  show "\<exists>st body. http_exception_handler req exc now =
                  Inr \<lparr>resp_status = st, content = Some body\<rparr>
            \<and> body ''error'' = Some (JStr ''Error'')
            \<and> body ''message'' = Some (JStr s)"
  proof (cases "status_code exc = 401")
    case True
    have g: "dict_get (detail_dict (detail exc)) ''error'' (JStr '''') = JStr ''Error''"
      by (simp add: dict_get_def e)
    show ?thesis
      using http_401_branch [OF True g, of req now] e m
      by (simp add: envelope_echo)
  next
    case False
    show ?thesis
      using http_echo_branches [OF False assms(2), of req now] e m
      by (simp add: envelope_echo)
  qed
qed

text \<open>An instance of C9: a 404 error raised with the plain string \<open>Job not found\<close>.\<close>

theorem http_non_dict_detail_witness:
  "detail \<lparr>status_code = 404, detail = NonDict ''Job not found''\<rparr> = NonDict ''Job not found''
   \<and> status_code \<lparr>status_code = 404, detail = NonDict ''Job not found''\<rparr> \<noteq> 403
   \<and> (\<exists>st body. http_exception_handler \<lparr>req_method = ''GET'', path = ''/api/v1/jobs/7''\<rparr>
          \<lparr>status_code = 404, detail = NonDict ''Job not found''\<rparr> ''2024-05-01T10:00:00'' =
        Inr \<lparr>resp_status = st, content = Some body\<rparr>
      \<and> body ''error'' = Some (JStr ''Error'')
      \<and> body ''message'' = Some (JStr ''Job not found''))"
proof -
  let ?exc = "\<lparr>status_code = 404, detail = NonDict ''Job not found''\<rparr>"
  have h1: "detail ?exc = NonDict ''Job not found''" by simp
  have h2: "status_code ?exc \<noteq> 403" by simp
  from http_non_dict_detail [OF h1 h2, THEN conjunct2] h1 h2
  show ?thesis by blast
qed

section \<open>The health check\<close>

text \<open>
  C10. Every \<open>GET\<close> request to \<open>/healths\<close> is answered by the route of
  \<open>health_check\<close> with status 200 and the body \<open>{"status": "ok"}\<close>; the answer
  depends on nothing else.
\<close>

theorem health_check_response:
  assumes "req_method req = ''GET''" and "path req = ''/healths''"
  shows "serve healths_route req =
           Some \<lparr>resp_status = 200, content = Some [''status'' \<mapsto> JStr ''ok'']\<rparr>"
  using assms by (simp add: serve_def healths_route_def health_check_def)

text \<open>An instance of C10.\<close>

theorem health_check_response_witness:
  "req_method \<lparr>req_method = ''GET'', path = ''/healths''\<rparr> = ''GET''
   \<and> path \<lparr>req_method = ''GET'', path = ''/healths''\<rparr> = ''/healths''
   \<and> serve healths_route \<lparr>req_method = ''GET'', path = ''/healths''\<rparr> =
        Some \<lparr>resp_status = 200, content = Some [''status'' \<mapsto> JStr ''ok'']\<rparr>"
proof -
  have h1: "req_method \<lparr>req_method = ''GET'', path = ''/healths''\<rparr> = ''GET''"
    and h2: "path \<lparr>req_method = ''GET'', path = ''/healths''\<rparr> = ''/healths''"
    by simp_all
  from health_check_response [OF h1 h2] h1 h2 show ?thesis by simp
qed

end
